theory Spec2Isabelle
  imports Main
begin

section \<open>Strings\<close>

text \<open>
  A JavaScript string is modelled as a \<open>string\<close> whose characters are code units
  below 256. The helpers below are the library calls the source makes on strings.
\<close>

definition lower_chars :: string where
  "lower_chars = ''abcdefghijklmnopqrstuvwxyz''"

definition upper_chars :: string where
  "upper_chars = ''ABCDEFGHIJKLMNOPQRSTUVWXYZ''"

definition digit_chars :: string where
  "digit_chars = ''0123456789''"

definition is_digit :: "char \<Rightarrow> bool" where
  "is_digit c = (c \<in> set digit_chars)"

definition is_alpha :: "char \<Rightarrow> bool" where
  "is_alpha c = (c \<in> set lower_chars \<or> c \<in> set upper_chars)"

definition is_alnum :: "char \<Rightarrow> bool" where
  "is_alnum c = (is_alpha c \<or> is_digit c)"

text \<open>\<open>s.split(c)\<close> for a one-character separator: \<open>"".split(c)\<close> is \<open>[""]\<close>.\<close>

fun split_on :: "char \<Rightarrow> string \<Rightarrow> string list" where
  "split_on c [] = [[]]"
| "split_on c (x # xs) =
     (if x = c then [] # split_on c xs
      else (case split_on c xs of
              [] \<Rightarrow> [[x]]
            | y # ys \<Rightarrow> (x # y) # ys))"

text \<open>\<open>xs.join(',')\<close>.\<close>

fun join_comma :: "string list \<Rightarrow> string" where
  "join_comma [] = []"
| "join_comma [x] = x"
| "join_comma (x # y # ys) = x @ '','' @ join_comma (y # ys)"

text \<open>Decimal rendering of a number inside a template literal.\<close>

definition digit_of :: "nat \<Rightarrow> char" where
  "digit_of d = digit_chars ! (d mod 10)"

function string_of_nat :: "nat \<Rightarrow> string" where
  "string_of_nat n =
     (if n < 10 then [digit_of n] else string_of_nat (n div 10) @ [digit_of n])"
  by pat_completeness auto
termination
  by (relation "measure id") auto

section \<open>Address syntax (\<open>validateEmail\<close>)\<close>

text \<open>
  The pattern of \<open>EmailService.validateEmail\<close> (the same literal is \<open>validateEmail\<close>
  of the utilities and \<open>emailRegex\<close> of the contact route):
  \<^verbatim>\<open>^[a-zA-Z0-9.!#$%&'*+/=?^_`{|}~-]+@L(?:\.L)*$\<close> with
  \<^verbatim>\<open>L = [a-zA-Z0-9](?:[a-zA-Z0-9-]{0,61}[a-zA-Z0-9])?\<close>.
  Neither character class holds the at sign and the label class holds no dot, so the
  local part is what precedes the first at sign and the labels are the dot-separated
  pieces of the rest.
\<close>

definition local_specials :: string where
  "local_specials = ''.!#$%&*+/=?^_{|}~-'' @ [CHR 0x27, CHR 0x60]"

definition local_char :: "char \<Rightarrow> bool" where
  "local_char c = (is_alnum c \<or> c \<in> set local_specials)"

definition label_char :: "char \<Rightarrow> bool" where
  "label_char c = (is_alnum c \<or> c = CHR ''-'')"

definition label_ok :: "string \<Rightarrow> bool" where
  "label_ok l =
     (l \<noteq> [] \<and> length l \<le> 63 \<and> is_alnum (hd l) \<and> is_alnum (last l) \<and> list_all label_char l)"

definition validateEmail :: "string \<Rightarrow> bool" where
  "validateEmail email =
     (let local = takeWhile (\<lambda>c. c \<noteq> CHR ''@'') email;
          rest = dropWhile (\<lambda>c. c \<noteq> CHR ''@'') email
      in local \<noteq> [] \<and> list_all local_char local \<and>
         (case rest of
            [] \<Rightarrow> False
          | _ # domain \<Rightarrow> list_all label_ok (split_on CHR ''.'' domain)))"

text \<open>\<open>to: string | string[]\<close>.\<close>

datatype recipients = One string | Many "string list"

definition validateEmails :: "recipients \<Rightarrow> bool" where
  "validateEmails emails =
     (let emailList = (case emails of Many xs \<Rightarrow> xs | One x \<Rightarrow> [x])
      in list_all validateEmail emailList)"

section \<open>Template rendering (\<open>EmailTemplate.render\<close>)\<close>

text \<open>Thrown values: an \<open>Error\<close> of the repository, or one raised inside a library.\<close>

datatype exn = Error string | LibraryError string

text \<open>
  The values of a \<open>templateData\<close> mapping, as far as the handlers build them, and
  \<open>String(value)\<close>.
\<close>

datatype jsval = VUndefined | VNull | VBool bool | VStr string

fun String_js :: "jsval \<Rightarrow> string" where
  "String_js VUndefined = ''undefined''"
| "String_js VNull = ''null''"
| "String_js (VBool b) = (if b then ''true'' else ''false'')"
| "String_js (VStr s) = s"

text \<open>
  \<open>new RegExp(`{{${key}}}`, 'g')\<close>. Without the \<open>u\<close> flag a brace that does not
  open a quantifier is an ordinary pattern character, so for a key free of syntax
  characters and not shaped like the body of a quantifier (\<open>n\<close>, \<open>n,\<close> or \<open>n,m\<close>) the
  pattern matches the text \<open>{{key}}\<close> and nothing else, with no capture group. On every
  other key the regular-expression engine decides: its behaviour there (a thrown
  \<open>SyntaxError\<close>, or the function \<open>\<lambda>subject replacement. subject.replace(re, replacement)\<close>)
  is the parameter \<open>engine\<close>.
\<close>

type_synonym regexp_engine = "string \<Rightarrow> exn + (string \<Rightarrow> string \<Rightarrow> string)"

definition syntax_chars :: string where
  "syntax_chars = ''^$.*+?()[]{}|'' @ [CHR 0x5C]"

definition quantifier_body :: "string \<Rightarrow> bool" where
  "quantifier_body k =
     (let lo = takeWhile is_digit k; rest = dropWhile is_digit k
      in lo \<noteq> [] \<and>
         (case rest of
            [] \<Rightarrow> True
          | c # hi \<Rightarrow> c = CHR '','' \<and> list_all is_digit hi))"

definition plain_key :: "string \<Rightarrow> bool" where
  "plain_key k = (list_all (\<lambda>c. c \<notin> set syntax_chars) k \<and> \<not> quantifier_body k)"

definition placeholder :: "string \<Rightarrow> string" where
  "placeholder key = ''{{'' @ key @ ''}}''"

text \<open>
  \<open>GetSubstitution\<close> of ECMAScript for a match without capture groups: in the
  replacement text \<open>$$\<close> stands for a dollar sign, \<open>$&\<close> for the matched text, \<open>$`\<close> for
  the subject preceding the match and \<open>$'\<close> for the subject following it; any other dollar
  sign is copied.
\<close>

fun getSubstitution :: "string \<Rightarrow> string \<Rightarrow> string \<Rightarrow> string \<Rightarrow> string" where
  "getSubstitution matched preceding following [] = []"
| "getSubstitution matched preceding following [c] = [c]"
| "getSubstitution matched preceding following (c # d # rest) =
     (if c = CHR ''$'' \<and> d = CHR ''$'' then CHR ''$'' # getSubstitution matched preceding following rest
      else if c = CHR ''$'' \<and> d = CHR ''&'' then matched @ getSubstitution matched preceding following rest
      else if c = CHR ''$'' \<and> d = CHR 0x60 then preceding @ getSubstitution matched preceding following rest
      else if c = CHR ''$'' \<and> d = CHR 0x27 then following @ getSubstitution matched preceding following rest
      else c # getSubstitution matched preceding following (d # rest))"

text \<open>
  \<open>subject.replace(re, replacement)\<close> for the global pattern of a plain key: the
  matches are taken left to right without overlap; \<open>preceding\<close> is the part of the subject
  already passed.
\<close>

function replace_placeholder :: "string \<Rightarrow> string \<Rightarrow> string \<Rightarrow> string \<Rightarrow> string" where
  "replace_placeholder key replacement preceding [] = []"
| "replace_placeholder key replacement preceding (c # cs) =
     (let p = placeholder key; n = length p
      in if take n (c # cs) = p
         then getSubstitution p preceding (drop n (c # cs)) replacement @
              replace_placeholder key replacement (preceding @ p) (drop n (c # cs))
         else c # replace_placeholder key replacement (preceding @ [c]) cs)"
  by pat_completeness auto
termination
  by (relation "measure (\<lambda>(key, replacement, preceding, subject). length subject)")
     (auto simp: placeholder_def)

definition replace_g :: "regexp_engine \<Rightarrow> string \<Rightarrow> exn + (string \<Rightarrow> string \<Rightarrow> string)" where
  "replace_g engine key =
     (if plain_key key then Inr (\<lambda>subject replacement. replace_placeholder key replacement [] subject)
      else engine (placeholder key))"

record EmailTemplate =
  htmlTemplate :: string
  textTemplate :: string

record RenderedTemplate =
  html :: string
  text_body :: string

text \<open>
  The \<open>forEach\<close> over \<open>Object.entries(data)\<close>, on the local variables \<open>html\<close> and
  \<open>text\<close>; a thrown \<open>SyntaxError\<close> leaves the loop.
\<close>

fun render_entries ::
  "regexp_engine \<Rightarrow> (string \<times> jsval) list \<Rightarrow> string \<Rightarrow> string \<Rightarrow> exn + RenderedTemplate" where
  "render_entries engine [] h t = Inr \<lparr>html = h, text_body = t\<rparr>"
| "render_entries engine ((key, v) # es) h t =
     (case replace_g engine key of
        Inl e \<Rightarrow> Inl e
      | Inr re \<Rightarrow> render_entries engine es (re h (String_js v)) (re t (String_js v)))"

definition render ::
  "regexp_engine \<Rightarrow> EmailTemplate \<Rightarrow> (string \<times> jsval) list \<Rightarrow> exn + RenderedTemplate" where
  "render engine tmpl data = render_entries engine data (htmlTemplate tmpl) (textTemplate tmpl)"

section \<open>The email service (\<open>EmailService\<close>)\<close>

text \<open>
  \<open>process.env\<close>, with the clock readings \<open>Date.now().toString()\<close> and
  \<open>new Date().toISOString()\<close>.
\<close>

record env =
  NODE_ENV :: "string option"
  SMTP_HOST :: "string option"
  SMTP_PORT :: "string option"
  SMTP_USER :: "string option"
  SMTP_PASSWORD :: "string option"
  SMTP_FROM :: "string option"
  now :: string
  now_iso :: string

text \<open>The object handed to \<open>transporter.sendMail\<close>.\<close>

record mail =
  from_name :: string
  from_address :: string
  to :: string
  subject :: string
  text_part :: "string option"
  html_part :: "string option"
  replyTo :: "string option"
  attachments :: "(string \<times> string) list option"
  x_entity_ref_id :: string
  list_unsubscribe :: string

text \<open>
  What the service does to the outside, in order: a call of \<open>sendMail\<close>, a
  \<open>setTimeout\<close> wait in milliseconds, a line of the logger (\<open>logInfo context message\<close>,
  \<open>logError context\<close>) or of the console, the truncation of an uploaded file.
\<close>

datatype event =
    SendMail nat mail
  | Delay nat
  | LogInfo string string
  | LogError string
  | ConsoleLog string
  | ConsoleWarn string
  | WriteFile string

text \<open>
  A nodemailer transporter: the outcome of the \<open>sendMail\<close> call made with
  \<open>retries = k\<close>, a thrown value or the \<open>messageId\<close> of the \<open>info\<close> it resolves to.
\<close>

type_synonym transporter = "nat \<Rightarrow> mail \<Rightarrow> exn + string"

record service =
  transporter :: "transporter option"
  defaultFrom :: string
  isConfigured :: bool

definition maxRetries :: nat where
  "maxRetries = 3"

definition retryDelay :: nat where
  "retryDelay = 1000"

text \<open>\<open>!process.env.X\<close>: the variable is unset or empty.\<close>

definition unset :: "string option \<Rightarrow> bool" where
  "unset v = (case v of None \<Rightarrow> True | Some s \<Rightarrow> s = [])"

text \<open>\<open>a || b\<close> on an optional string.\<close>

definition or_else :: "string option \<Rightarrow> string \<Rightarrow> string" where
  "or_else v d = (if unset v then d else the v)"

text \<open>
  The constructor and \<open>initializeTransporter\<close>; \<open>createTransport\<close> is nodemailer's,
  which may throw.
\<close>

definition initializeTransporter ::
  "env \<Rightarrow> (env \<Rightarrow> exn + transporter) \<Rightarrow> service \<Rightarrow> service \<times> event list" where
  "initializeTransporter e createTransport svc =
     (if unset (SMTP_HOST e) \<or> unset (SMTP_USER e) \<or> unset (SMTP_PASSWORD e)
      then (svc\<lparr>isConfigured := False\<rparr>,
            [ConsoleWarn ''Email service not configured: Missing SMTP credentials''])
      else (case createTransport e of
              Inr t \<Rightarrow> (svc\<lparr>transporter := Some t, isConfigured := True\<rparr>, [])
            | Inl err \<Rightarrow>
                (svc\<lparr>isConfigured := False\<rparr>, [LogError ''Email Service Initialization Error''])))"

definition new_EmailService :: "env \<Rightarrow> (env \<Rightarrow> exn + transporter) \<Rightarrow> service \<times> event list" where
  "new_EmailService e createTransport =
     initializeTransporter e createTransport
       \<lparr>transporter = None, defaultFrom = or_else (SMTP_FROM e) [], isConfigured = False\<rparr>"

text \<open>
  \<open>sendWithRetry\<close>: the result is the value returned (\<open>Inr\<close>) or thrown (\<open>Inl\<close>),
  with the events of the call and of the calls it makes. \<open>attempt\<close> is the \<open>try\<close>
  block, one call of \<open>sendMail\<close> unless the transporter is missing; the \<open>catch\<close>
  block is the rest of \<open>sendWithRetry\<close>, whose recursive call is outside the \<open>try\<close>.
\<close>

definition attempt :: "service \<Rightarrow> env \<Rightarrow> mail \<Rightarrow> nat \<Rightarrow> (exn + bool) \<times> event list" where
  "attempt svc e m retries =
     (case transporter svc of
        None \<Rightarrow> (Inl (Error ''Email transporter not initialized''), [])
      | Some t \<Rightarrow>
          (case t retries m of
             Inl err \<Rightarrow> (Inl err, [SendMail retries m])
           | Inr messageId \<Rightarrow>
               (Inr True,
                [SendMail retries m] @
                (if NODE_ENV e \<noteq> Some ''production''
                 then [ConsoleLog ''Email sent:''] @
                      (if messageId \<noteq> [] then [ConsoleLog ''Preview URL:''] else [])
                 else []) @
                [LogInfo ''Email Service'' ''Email sent successfully''])))"

function sendWithRetry :: "service \<Rightarrow> env \<Rightarrow> mail \<Rightarrow> nat \<Rightarrow> (exn + bool) \<times> event list" where
  "sendWithRetry svc e m retries =
     (case attempt svc e m retries of
        (Inr r, evs) \<Rightarrow> (Inr r, evs)
      | (Inl err, evs) \<Rightarrow>
          (if retries < maxRetries
           then (case sendWithRetry svc e m (retries + 1) of
                   (r, evs') \<Rightarrow>
                     (r, evs @
                         [LogInfo ''Email Service''
                            (''Retrying email send (attempt '' @ string_of_nat (retries + 1) @ '')''),
                          Delay retryDelay] @ evs'))
           else (Inl err, evs)))"
  by pat_completeness auto
termination
  by (relation "measure (\<lambda>(svc, e, m, retries). maxRetries - retries)") auto

record EmailOptions =
  opt_to :: recipients
  opt_subject :: string
  opt_text :: "string option"
  opt_html :: "string option"
  opt_from :: "string option"
  opt_replyTo :: "string option"
  opt_attachments :: "(string \<times> string) list option"
  opt_template :: "EmailTemplate option"
  opt_templateData :: "(string \<times> jsval) list option"

text \<open>
  The libraries \<open>sendEmail\<close> runs through: the regular-expression engine behind
  \<open>render\<close> and \<open>DOMPurify.sanitize\<close> under the configuration of \<open>sanitizeHtml\<close>.
\<close>

record libs =
  regexp :: regexp_engine
  purify :: "string \<Rightarrow> exn + string"

definition sanitizeHtml :: "libs \<Rightarrow> string \<Rightarrow> exn + string" where
  "sanitizeHtml l h = purify l h"

text \<open>
  The domain of the \<open>List-Unsubscribe\<close> header:
  \<open>process.env.SMTP_FROM?.split('@')[1] || 'carlora.com'\<close>.
\<close>

definition unsubscribe_domain :: "env \<Rightarrow> string" where
  "unsubscribe_domain e =
     (case SMTP_FROM e of
        None \<Rightarrow> ''carlora.com''
      | Some f \<Rightarrow>
          (case split_on CHR ''@'' f of
             _ # d # _ \<Rightarrow> (if d = [] then ''carlora.com'' else d)
           | _ \<Rightarrow> ''carlora.com''))"

text \<open>
  "Apply template if provided": the pair \<open>(html, text)\<close> after the step. An object is
  always truthy, so the test asks only that both fields are there.
\<close>

definition apply_template :: "libs \<Rightarrow> EmailOptions \<Rightarrow> exn + (string option \<times> string option)" where
  "apply_template l options =
     (case opt_template options of
        None \<Rightarrow> Inr (opt_html options, opt_text options)
      | Some tmpl \<Rightarrow>
          (case opt_templateData options of
             None \<Rightarrow> Inr (opt_html options, opt_text options)
           | Some data \<Rightarrow>
               (case render (regexp l) tmpl data of
                  Inl err \<Rightarrow> Inl err
                | Inr rendered \<Rightarrow> Inr (Some (html rendered), Some (text_body rendered)))))"

text \<open>"Sanitize HTML content": \<open>if (html)\<close> skips an absent or empty body.\<close>

definition sanitize_content :: "libs \<Rightarrow> string option \<Rightarrow> exn + string option" where
  "sanitize_content l h =
     (case h of
        None \<Rightarrow> Inr None
      | Some s \<Rightarrow>
          (if s = [] then Inr (Some s)
           else (case sanitizeHtml l s of
                   Inl err \<Rightarrow> Inl err
                 | Inr clean \<Rightarrow> Inr (Some clean))))"

definition mailOptions ::
  "service \<Rightarrow> env \<Rightarrow> EmailOptions \<Rightarrow> string option \<Rightarrow> string option \<Rightarrow> mail" where
  "mailOptions svc e options h t =
     \<lparr>from_name = ''Carlora Strategic Innovation'',
      from_address = or_else (opt_from options) (defaultFrom svc),
      to = (case opt_to options of Many xs \<Rightarrow> join_comma xs | One x \<Rightarrow> x),
      subject = opt_subject options,
      text_part = t,
      html_part = h,
      replyTo = opt_replyTo options,
      attachments = opt_attachments options,
      x_entity_ref_id = now e,
      list_unsubscribe = ''<mailto:unsubscribe@'' @ unsubscribe_domain e @ ''>''\<rparr>"

text \<open>The body of the \<open>try\<close> block of \<open>sendEmail\<close>.\<close>

definition sendEmail_try ::
  "libs \<Rightarrow> service \<Rightarrow> env \<Rightarrow> EmailOptions \<Rightarrow> (exn + bool) \<times> event list" where
  "sendEmail_try l svc e options =
     (if \<not> validateEmails (opt_to options) then (Inl (Error ''Invalid email address(es)''), [])
      else if NODE_ENV e = Some ''development'' \<or> \<not> isConfigured svc
      then (Inr True, [ConsoleLog ''Email would be sent in production:''])
      else
        (case apply_template l options of
           Inl err \<Rightarrow> (Inl err, [])
         | Inr (h, t) \<Rightarrow>
             (case sanitize_content l h of
                Inl err \<Rightarrow> (Inl err, [])
              | Inr h' \<Rightarrow> sendWithRetry svc e (mailOptions svc e options h' t) 0)))"

text \<open>\<open>sendEmail\<close>: the \<open>catch\<close> logs whatever the body threw and returns \<open>false\<close>.\<close>

definition sendEmail :: "libs \<Rightarrow> service \<Rightarrow> env \<Rightarrow> EmailOptions \<Rightarrow> bool \<times> event list" where
  "sendEmail l svc e options =
     (case sendEmail_try l svc e options of
        (Inr r, evs) \<Rightarrow> (r, evs)
      | (Inl err, evs) \<Rightarrow> (False, evs @ [LogError ''Email Sending Error'']))"

text \<open>The number of \<open>sendMail\<close> calls in a run.\<close>

fun is_SendMail :: "event \<Rightarrow> bool" where
  "is_SendMail (SendMail k m) = True"
| "is_SendMail _ = False"

definition attempts :: "event list \<Rightarrow> nat" where
  "attempts evs = length (filter is_SendMail evs)"

text \<open>The waits and the logger's information lines of a run.\<close>

fun delays :: "event list \<Rightarrow> nat list" where
  "delays [] = []"
| "delays (Delay d # evs) = d # delays evs"
| "delays (ev # evs) = delays evs"

fun info_messages :: "event list \<Rightarrow> string list" where
  "info_messages [] = []"
| "info_messages (LogInfo ctx msg # evs) = msg # info_messages evs"
| "info_messages (ev # evs) = info_messages evs"

fun error_contexts :: "event list \<Rightarrow> string list" where
  "error_contexts [] = []"
| "error_contexts (LogError ctx # evs) = ctx # error_contexts evs"
| "error_contexts (ev # evs) = error_contexts evs"

subsection \<open>Sample surroundings\<close>

text \<open>
  Concrete libraries, environments and transports on which the models are run: an
  engine that rejects every pattern it is asked about, a sanitizer that returns its
  input, and transports that fail a fixed number of times.
\<close>

definition strict_engine :: regexp_engine where
  "strict_engine = (\<lambda>src. Inl (LibraryError ''SyntaxError''))"

definition sample_libs :: libs where
  "sample_libs = \<lparr>regexp = strict_engine, purify = (\<lambda>s. Inr s)\<rparr>"

definition throwing_purify_libs :: libs where
  "throwing_purify_libs = \<lparr>regexp = strict_engine, purify = (\<lambda>s. Inl (LibraryError ''TypeError''))\<rparr>"

definition production_env :: env where
  "production_env =
     \<lparr>NODE_ENV = Some ''production'', SMTP_HOST = Some ''smtp.carlora.com'',
      SMTP_PORT = Some ''465'', SMTP_USER = Some ''office@carlora.com'',
      SMTP_PASSWORD = Some ''secret'', SMTP_FROM = Some ''noreply@carlora.com'',
      now = ''1700000000000'', now_iso = ''2023-11-14T22:13:20.000Z''\<rparr>"

definition host_missing_env :: env where
  "host_missing_env = production_env\<lparr>SMTP_HOST := None\<rparr>"

definition failing_until :: "nat \<Rightarrow> transporter" where
  "failing_until n = (\<lambda>k m. if k < n then Inl (LibraryError ''ECONNREFUSED'') else Inr ''id-1'')"

definition always_failing :: transporter where
  "always_failing = (\<lambda>k m. Inl (LibraryError ''ECONNREFUSED''))"

definition service_with :: "transporter \<Rightarrow> service" where
  "service_with t = \<lparr>transporter = Some t, defaultFrom = ''noreply@carlora.com'', isConfigured = True\<rparr>"

definition plain_options :: "recipients \<Rightarrow> EmailOptions" where
  "plain_options r =
     \<lparr>opt_to = r, opt_subject = ''Hello'', opt_text = Some ''Hi'', opt_html = Some ''<p>Hi</p>'',
      opt_from = None, opt_replyTo = None, opt_attachments = None, opt_template = None,
      opt_templateData = None\<rparr>"

section \<open>Schema validation\<close>

text \<open>
  \<open>s.trim()\<close> and \<open>s.toLowerCase()\<close> on code units below 256, and the class \<open>\s\<close>:
  the white space there is tab, line feed, vertical tab, form feed, carriage return,
  space and the no-break space; the capitals are A to Z and the Latin-1 capitals (the
  multiplication sign at 0xD7 is not a letter), each mapped to the letter 0x20 above it.
\<close>

definition is_space :: "char \<Rightarrow> bool" where
  "is_space c = (c \<in> set [CHR 0x09, CHR 0x0A, CHR 0x0B, CHR 0x0C, CHR 0x0D, CHR 0x20, CHR 0xA0])"

definition trim :: "string \<Rightarrow> string" where
  "trim s = rev (dropWhile is_space (rev (dropWhile is_space s)))"

definition latin1_upper :: string where
  "latin1_upper =
     [CHR 0xC0, CHR 0xC1, CHR 0xC2, CHR 0xC3, CHR 0xC4, CHR 0xC5, CHR 0xC6, CHR 0xC7,
      CHR 0xC8, CHR 0xC9, CHR 0xCA, CHR 0xCB, CHR 0xCC, CHR 0xCD, CHR 0xCE, CHR 0xCF,
      CHR 0xD0, CHR 0xD1, CHR 0xD2, CHR 0xD3, CHR 0xD4, CHR 0xD5, CHR 0xD6, CHR 0xD8,
      CHR 0xD9, CHR 0xDA, CHR 0xDB, CHR 0xDC, CHR 0xDD, CHR 0xDE]"

definition latin1_lower :: string where
  "latin1_lower =
     [CHR 0xE0, CHR 0xE1, CHR 0xE2, CHR 0xE3, CHR 0xE4, CHR 0xE5, CHR 0xE6, CHR 0xE7,
      CHR 0xE8, CHR 0xE9, CHR 0xEA, CHR 0xEB, CHR 0xEC, CHR 0xED, CHR 0xEE, CHR 0xEF,
      CHR 0xF0, CHR 0xF1, CHR 0xF2, CHR 0xF3, CHR 0xF4, CHR 0xF5, CHR 0xF6, CHR 0xF8,
      CHR 0xF9, CHR 0xFA, CHR 0xFB, CHR 0xFC, CHR 0xFD, CHR 0xFE]"

definition lower_char :: "char \<Rightarrow> char" where
  "lower_char c =
     (case map_of (zip (upper_chars @ latin1_upper) (lower_chars @ latin1_lower)) c of
        None \<Rightarrow> c
      | Some l \<Rightarrow> l)"

definition toLowerCase :: "string \<Rightarrow> string" where
  "toLowerCase s = map lower_char s"

text \<open>
  A value of the parsed body. A schema only asks of a field whether it is a string,
  so arrays and objects are not looked into.
\<close>

datatype json = JNull | JBool bool | JNum int | JStr string | JArray | JObject

datatype jsondata = NonObject | Object "string \<Rightarrow> json option"

text \<open>
  An entry of \<open>error.errors\<close> as the handlers report it: the field and the message,
  which is the text given in the schema or else the library's own.
\<close>

datatype message = Custom string | ZodDefault

type_synonym issue = "string \<times> message"

text \<open>
  The checks of the schema library that are not written in the repository:
  \<open>.email()\<close> and \<open>.datetime()\<close>.
\<close>

record zod =
  is_email :: "string \<Rightarrow> bool"
  is_datetime :: "string \<Rightarrow> bool"

text \<open>
  \<open>z.string()\<close> followed by checks: a value that is not a string is one issue; on a
  string every check runs and every failing one is an issue.
\<close>

definition z_string ::
  "string \<Rightarrow> ((string \<Rightarrow> bool) \<times> message) list \<Rightarrow> json option \<Rightarrow> issue list + string" where
  "z_string field checks v =
     (case v of
        Some (JStr s) \<Rightarrow>
          (case map (\<lambda>(ok, msg). (field, msg)) (filter (\<lambda>(ok, msg). \<not> ok s) checks) of
             [] \<Rightarrow> Inr s
           | i # is \<Rightarrow> Inl (i # is))
      | _ \<Rightarrow> Inl [(field, ZodDefault)])"

text \<open>\<open>.optional()\<close>: an absent field passes as \<open>undefined\<close>.\<close>

definition z_optional ::
  "string \<Rightarrow> ((string \<Rightarrow> bool) \<times> message) list \<Rightarrow> json option \<Rightarrow> issue list + string option" where
  "z_optional field checks v =
     (case v of
        None \<Rightarrow> Inr None
      | Some x \<Rightarrow>
          (case z_string field checks v of Inl is \<Rightarrow> Inl is | Inr s \<Rightarrow> Inr (Some s)))"

text \<open>\<open>z.enum([...])\<close>.\<close>

definition z_enum :: "string \<Rightarrow> string list \<Rightarrow> json option \<Rightarrow> issue list + string" where
  "z_enum field allowed v = z_string field [(\<lambda>s. s \<in> set allowed, ZodDefault)] v"

text \<open>\<open>.transform(f)\<close>: runs only on a value that passed.\<close>

definition z_transform :: "('a \<Rightarrow> 'b) \<Rightarrow> issue list + 'a \<Rightarrow> issue list + 'b" where
  "z_transform f r = (case r of Inl is \<Rightarrow> Inl is | Inr x \<Rightarrow> Inr (f x))"

text \<open>
  \<open>z.object\<close> parses every key in the order of the shape and gathers the issues of
  all of them.
\<close>

definition both :: "issue list + 'a \<Rightarrow> issue list + 'b \<Rightarrow> issue list + ('a \<times> 'b)" where
  "both a b =
     (case a of
        Inl i \<Rightarrow> (case b of Inl j \<Rightarrow> Inl (i @ j) | Inr y \<Rightarrow> Inl i)
      | Inr x \<Rightarrow> (case b of Inl j \<Rightarrow> Inl j | Inr y \<Rightarrow> Inr (x, y)))"

definition z_object :: "(( string \<Rightarrow> json option) \<Rightarrow> issue list + 'a) \<Rightarrow> jsondata \<Rightarrow> issue list + 'a" where
  "z_object shape data =
     (case data of NonObject \<Rightarrow> Inl [([], ZodDefault)] | Object d \<Rightarrow> shape d)"

definition min_length :: "nat \<Rightarrow> string \<Rightarrow> bool" where
  "min_length n s = (n \<le> length s)"

definition max_length :: "nat \<Rightarrow> string \<Rightarrow> bool" where
  "max_length n s = (length s \<le> n)"

subsection \<open>\<open>consultationSchema\<close>\<close>

record consultation =
  c_name :: string
  c_email :: string
  c_company :: string
  c_industry :: string
  c_companySize :: string
  c_consultationType :: string
  c_message :: string
  c_preferredDate :: string
  c_honeypot :: "string option"

definition consultationSchema :: "zod \<Rightarrow> jsondata \<Rightarrow> issue list + consultation" where
  "consultationSchema z =
     z_object (\<lambda>d.
       z_transform
         (\<lambda>(n, e, c, i, cs, ct, m, p, h).
            \<lparr>c_name = n, c_email = e, c_company = c, c_industry = i, c_companySize = cs,
             c_consultationType = ct, c_message = m, c_preferredDate = p, c_honeypot = h\<rparr>)
         (both (z_string ''name''
                  [(min_length 2, Custom ''Name must be at least 2 characters'')] (d ''name''))
         (both (z_string ''email'' [(is_email z, Custom ''Invalid email address'')] (d ''email''))
         (both (z_string ''company''
                  [(min_length 2, Custom ''Company name must be at least 2 characters'')]
                  (d ''company''))
         (both (z_enum ''industry''
                  [''Technology'', ''Finance'', ''Healthcare'', ''Retail'', ''Manufacturing'',
                   ''Other'']
                  (d ''industry''))
         (both (z_enum ''companySize'' [''1-10'', ''11-50'', ''51-200'', ''201-500'', ''500+'']
                  (d ''companySize''))
         (both (z_enum ''consultationType''
                  [''Business Strategy'', ''Digital Transformation'',
                   ''Performance Optimization'', ''Market Analysis'', ''Innovation Consulting'']
                  (d ''consultationType''))
         (both (z_string ''message''
                  [(min_length 10, Custom ''Please provide more details about your needs'')]
                  (d ''message''))
         (both (z_string ''preferredDate''
                  [(min_length 1, Custom ''Please select a preferred date'')]
                  (d ''preferredDate''))
               (z_optional ''honeypot'' [(max_length 0, ZodDefault)] (d ''honeypot'')))))))))))"

subsection \<open>\<open>contactSchema\<close>\<close>

record contact =
  k_name :: string
  k_email :: string
  k_message :: string
  k_timestamp :: "string option"
  k_honeypot :: "string option"

text \<open>\<^verbatim>\<open>/^[a-zA-Z\s]*$/\<close>\<close>

definition letters_only :: "string \<Rightarrow> bool" where
  "letters_only s = list_all (\<lambda>c. is_alpha c \<or> is_space c) s"

definition contactSchema :: "zod \<Rightarrow> jsondata \<Rightarrow> issue list + contact" where
  "contactSchema z =
     z_object (\<lambda>d.
       z_transform
         (\<lambda>(n, e, m, t, h).
            \<lparr>k_name = n, k_email = e, k_message = m, k_timestamp = t, k_honeypot = h\<rparr>)
         (both (z_transform trim
                  (z_string ''name''
                     [(min_length 2, Custom ''Name must be at least 2 characters''),
                      (letters_only, Custom ''Name must contain only letters'')]
                     (d ''name'')))
         (both (z_transform (\<lambda>val. trim (toLowerCase val))
                  (z_string ''email''
                     [(is_email z, Custom ''Invalid email format''),
                      (validateEmail, Custom ''Please enter a valid email address'')]
                     (d ''email'')))
         (both (z_transform trim
                  (z_string ''message''
                     [(min_length 10, Custom ''Message must be at least 10 characters''),
                      (max_length 1000, Custom ''Message must not exceed 1000 characters'')]
                     (d ''message'')))
         (both (z_optional ''timestamp'' [(is_datetime z, ZodDefault)] (d ''timestamp''))
               (z_optional ''honeypot'' [(max_length 0, ZodDefault)] (d ''honeypot'')))))))"

subsection \<open>\<open>applicationSchema\<close>\<close>

record application =
  a_name :: string
  a_email :: string
  a_phone :: string
  a_message :: string
  a_honeypot :: "string option"

text \<open>
  \<^verbatim>\<open>/\+?[1-9]\d{1,14}$/\<close>: the pattern is not anchored at the start, so it asks for a
  suffix made of a digit from 1 to 9 and then one to fourteen digits.
\<close>

fun suffixes_of :: "string \<Rightarrow> string list" where
  "suffixes_of [] = [[]]"
| "suffixes_of (c # cs) = (c # cs) # suffixes_of cs"

definition phone_suffix :: "string \<Rightarrow> bool" where
  "phone_suffix t =
     (case t of
        [] \<Rightarrow> False
      | c # ds \<Rightarrow> is_digit c \<and> c \<noteq> CHR ''0'' \<and> 1 \<le> length ds \<and> length ds \<le> 14 \<and>
                 list_all is_digit ds)"

definition phone_ok :: "string \<Rightarrow> bool" where
  "phone_ok s = list_ex phone_suffix (suffixes_of s)"

definition applicationSchema :: "zod \<Rightarrow> jsondata \<Rightarrow> issue list + application" where
  "applicationSchema z =
     z_object (\<lambda>d.
       z_transform
         (\<lambda>(n, e, p, m, h).
            \<lparr>a_name = n, a_email = e, a_phone = p, a_message = m, a_honeypot = h\<rparr>)
         (both (z_string ''name''
                  [(min_length 2, Custom ''Name must be at least 2 characters'')] (d ''name''))
         (both (z_string ''email'' [(is_email z, Custom ''Invalid email address'')] (d ''email''))
         (both (z_string ''phone'' [(phone_ok, Custom ''Invalid phone number'')] (d ''phone''))
         (both (z_string ''message''
                  [(min_length 10, Custom ''Please provide more details'')] (d ''message''))
               (z_optional ''honeypot'' [(max_length 0, ZodDefault)] (d ''honeypot'')))))))"

section \<open>Route handlers\<close>

text \<open>
  A request: the two headers the handlers read and what the body parses to.
  \<open>body = None\<close> stands for a parse that throws (\<open>request.json()\<close>) or reports an
  error (\<open>form.parse\<close>); \<open>resume\<close> is the uploaded file of the application form, its
  name and path.
\<close>

record request =
  x_forwarded_for :: "string option"
  user_agent :: "string option"
  body :: "jsondata option"
  resume :: "(string \<times> string) option"

text \<open>The JSON bodies of the responses.\<close>

datatype response_body =
    ErrorBody string
  | ErrorDetails string "issue list"
  | MessageBody string
  | SuccessBody string

record response =
  status :: nat
  json_body :: response_body

text \<open>
  What a handler is run against. \<open>rateLimit\<close> is the repository's limiter, whose
  module is not among the sources: its answer for a request (\<open>limiter.success\<close>, or a
  thrown value) is given. \<open>template\<close> is the handler's template constant and
  \<open>writeFile\<close> tells whether truncating a path succeeds.
\<close>

record deps =
  dep_zod :: zod
  dep_libs :: libs
  emailService :: service
  process_env :: env
  rateLimit :: "request \<Rightarrow> exn + bool"
  template :: EmailTemplate
  writeFile :: "string \<Rightarrow> bool"

definition clientIP :: "request \<Rightarrow> string" where
  "clientIP req = or_else (x_forwarded_for req) ''unknown''"

definition userAgent :: "request \<Rightarrow> jsval" where
  "userAgent req = (case user_agent req of None \<Rightarrow> VNull | Some u \<Rightarrow> VStr u)"

text \<open>
  \<open>process.env.SMTP_USER!\<close> as the recipient: when the variable is unset the address
  check reads the string \<open>undefined\<close>.
\<close>

definition smtp_user :: "env \<Rightarrow> recipients" where
  "smtp_user e = One (case SMTP_USER e of None \<Rightarrow> ''undefined'' | Some u \<Rightarrow> u)"

text \<open>\<open>if (validatedData.honeypot)\<close>.\<close>

definition truthy :: "string option \<Rightarrow> bool" where
  "truthy v = (\<not> unset v)"

definition too_many_requests :: response where
  "too_many_requests =
     \<lparr>status = 429,
      json_body = ErrorBody ''Too many requests. Please try again in a few minutes.''\<rparr>"

definition validation_failed :: "issue list \<Rightarrow> response" where
  "validation_failed validationErrors =
     \<lparr>status = 400,
      json_body = ErrorDetails ''Please check your input and try again'' validationErrors\<rparr>"

definition submission_rejected :: response where
  "submission_rejected = \<lparr>status = 400, json_body = ErrorBody ''Form submission rejected''\<rparr>"

definition technical_difficulties :: response where
  "technical_difficulties =
     \<lparr>status = 500,
      json_body = ErrorBody
        (''We'' @ [CHR 0x27] @ ''re experiencing technical difficulties. '' @
         ''Please try again later or contact support directly.'')\<rparr>"

subsection \<open>Consultation booking\<close>

definition consultation_options :: "deps \<Rightarrow> request \<Rightarrow> consultation \<Rightarrow> EmailOptions" where
  "consultation_options d req v =
     \<lparr>opt_to = smtp_user (process_env d),
      opt_subject = ''New Consultation Request: '' @ c_name v @ '' - '' @ c_company v,
      opt_text = None, opt_html = None, opt_from = None, opt_replyTo = None,
      opt_attachments = None,
      opt_template = Some (template d),
      opt_templateData = Some
        ([(''name'', VStr (c_name v)), (''email'', VStr (c_email v)),
          (''company'', VStr (c_company v)), (''industry'', VStr (c_industry v)),
          (''companySize'', VStr (c_companySize v)),
          (''consultationType'', VStr (c_consultationType v)),
          (''message'', VStr (c_message v)), (''preferredDate'', VStr (c_preferredDate v))] @
         (case c_honeypot v of None \<Rightarrow> [] | Some h \<Rightarrow> [(''honeypot'', VStr h)]) @
         [(''timestamp'', VStr (now_iso (process_env d))), (''ip'', VStr (clientIP req)),
          (''userAgent'', userAgent req)])\<rparr>"

definition POST_consultation :: "deps \<Rightarrow> request \<Rightarrow> response \<times> event list" where
  "POST_consultation d req =
     (case rateLimit d req of
        Inl err \<Rightarrow> (technical_difficulties, [LogError ''Consultation Booking Error''])
      | Inr success \<Rightarrow>
          if \<not> success then (too_many_requests, [LogError ''Rate Limit Exceeded''])
          else
            (case body req of
               None \<Rightarrow> (technical_difficulties, [LogError ''Consultation Booking Error''])
             | Some data \<Rightarrow>
                 (case consultationSchema (dep_zod d) data of
                    Inl validationErrors \<Rightarrow>
                      (validation_failed validationErrors,
                       [LogError ''Consultation Booking Validation Failed''])
                  | Inr validatedData \<Rightarrow>
                      if truthy (c_honeypot validatedData)
                      then (submission_rejected, [LogError ''Honeypot Triggered''])
                      else
                        (case sendEmail (dep_libs d) (emailService d) (process_env d)
                                (consultation_options d req validatedData) of
                           (emailSent, evs) \<Rightarrow>
                             if \<not> emailSent
                             then (technical_difficulties,
                                   evs @ [LogError ''Consultation Booking Error''])
                             else (\<lparr>status = 200,
                                    json_body = SuccessBody
                                      ''Consultation request submitted successfully''\<rparr>,
                                   evs @ [LogInfo ''Consultation Booking Success''
                                            ''Consultation request submitted successfully''])))))"

subsection \<open>Contact form\<close>

definition contact_options :: "deps \<Rightarrow> request \<Rightarrow> contact \<Rightarrow> EmailOptions" where
  "contact_options d req v =
     \<lparr>opt_to = smtp_user (process_env d),
      opt_subject = ''Contact Form: '' @ k_name v,
      opt_text = None, opt_html = None, opt_from = None, opt_replyTo = None,
      opt_attachments = None,
      opt_template = Some (template d),
      opt_templateData = Some
        [(''name'', VStr (k_name v)), (''email'', VStr (k_email v)),
         (''message'', VStr (k_message v)),
         (''timestamp'', VStr (now_iso (process_env d))), (''ip'', VStr (clientIP req)),
         (''userAgent'', userAgent req)]\<rparr>"

definition POST_contact :: "deps \<Rightarrow> request \<Rightarrow> response \<times> event list" where
  "POST_contact d req =
     (case rateLimit d req of
        Inl err \<Rightarrow> (technical_difficulties, [LogError ''Contact Form Error''])
      | Inr success \<Rightarrow>
          if \<not> success then (too_many_requests, [LogError ''Rate Limit Exceeded''])
          else
            (case body req of
               None \<Rightarrow> (technical_difficulties, [LogError ''Contact Form Error''])
             | Some data \<Rightarrow>
                 (case contactSchema (dep_zod d) data of
                    Inl validationErrors \<Rightarrow>
                      (validation_failed validationErrors, [LogError ''Form Validation Failed''])
                  | Inr validatedData \<Rightarrow>
                      if truthy (k_honeypot validatedData)
                      then (submission_rejected, [LogError ''Honeypot Triggered''])
                      else
                        (case sendEmail (dep_libs d) (emailService d) (process_env d)
                                (contact_options d req validatedData) of
                           (emailSent, evs) \<Rightarrow>
                             if \<not> emailSent
                             then (technical_difficulties, evs @ [LogError ''Contact Form Error''])
                             else (\<lparr>status = 200,
                                    json_body = MessageBody ''Message sent successfully''\<rparr>,
                                   evs @ [LogInfo ''Form Submission Success''
                                            ''Contact form submitted successfully''])))))"

subsection \<open>Application form\<close>

definition application_options :: "deps \<Rightarrow> request \<Rightarrow> application \<Rightarrow> EmailOptions" where
  "application_options d req v =
     \<lparr>opt_to = smtp_user (process_env d),
      opt_subject = ''Application Form: '' @ a_name v,
      opt_text = None, opt_html = None, opt_from = None, opt_replyTo = None,
      opt_attachments = Some (case resume req of None \<Rightarrow> [] | Some f \<Rightarrow> [f]),
      opt_template = Some (template d),
      opt_templateData = Some
        [(''name'', VStr (a_name v)), (''email'', VStr (a_email v)),
         (''phone'', VStr (a_phone v)), (''message'', VStr (a_message v)),
         (''timestamp'', VStr (now_iso (process_env d))), (''ip'', VStr (clientIP req)),
         (''userAgent'', userAgent req)]\<rparr>"

definition POST_application :: "deps \<Rightarrow> request \<Rightarrow> response \<times> event list" where
  "POST_application d req =
     (case rateLimit d req of
        Inl err \<Rightarrow> (technical_difficulties, [LogError ''Application Form Error''])
      | Inr success \<Rightarrow>
          if \<not> success then (too_many_requests, [LogError ''Rate Limit Exceeded''])
          else
            (case body req of
               None \<Rightarrow> (technical_difficulties, [LogError ''Application Form Error''])
             | Some form_fields \<Rightarrow>
                 (case applicationSchema (dep_zod d) form_fields of
                    Inl validationErrors \<Rightarrow>
                      (validation_failed validationErrors,
                       [LogError ''Application Form Validation Failed''])
                  | Inr validatedData \<Rightarrow>
                      if truthy (a_honeypot validatedData)
                      then (submission_rejected, [LogError ''Honeypot Triggered''])
                      else
                        (case sendEmail (dep_libs d) (emailService d) (process_env d)
                                (application_options d req validatedData) of
                           (emailSent, evs) \<Rightarrow>
                             if \<not> emailSent
                             then (technical_difficulties,
                                   evs @ [LogError ''Application Form Error''])
                             else
                               (case resume req of
                                  None \<Rightarrow>
                                    (\<lparr>status = 200,
                                      json_body = MessageBody
                                        ''Application submitted successfully''\<rparr>,
                                     evs @ [LogInfo ''Application Form Success''
                                              ''Application submitted successfully''])
                                | Some (name, path) \<Rightarrow>
                                    if \<not> writeFile d path
                                    then (technical_difficulties,
                                          evs @ [WriteFile path,
                                                 LogError ''Application Form Error''])
                                    else (\<lparr>status = 200,
                                           json_body = MessageBody
                                             ''Application submitted successfully''\<rparr>,
                                          evs @ [WriteFile path,
                                                 LogInfo ''Application Form Success''
                                                   ''Application submitted successfully'']))))))"

subsection \<open>Sample requests\<close>

text \<open>
  Schema-library checks to run the handlers with: the address check is the
  repository's own pattern and every non-empty string counts as a date.
\<close>

definition sample_zod :: zod where
  "sample_zod = \<lparr>is_email = validateEmail, is_datetime = (\<lambda>s. s \<noteq> [])\<rparr>"

definition sample_template :: EmailTemplate where
  "sample_template =
     \<lparr>htmlTemplate = ''<p>{{name}} ({{email}}): {{message}}</p>'',
      textTemplate = ''{{name}} ({{email}}): {{message}}''\<rparr>"

definition sample_deps :: "bool \<Rightarrow> deps" where
  "sample_deps admitted =
     \<lparr>dep_zod = sample_zod, dep_libs = sample_libs,
      emailService = service_with (failing_until 0), process_env = production_env,
      rateLimit = (\<lambda>req. Inr admitted), template = sample_template,
      writeFile = (\<lambda>path. True)\<rparr>"

definition payload_of :: "(string \<times> json) list \<Rightarrow> jsondata" where
  "payload_of fs = Object (map_of fs)"

definition request_of :: "(string \<times> json) list \<Rightarrow> request" where
  "request_of fs =
     \<lparr>x_forwarded_for = Some ''203.0.113.7'', user_agent = Some ''curl/8'',
      body = Some (payload_of fs), resume = None\<rparr>"

definition consultation_fields :: "(string \<times> json) list" where
  "consultation_fields =
     [(''name'', JStr ''Ann Lee''), (''email'', JStr ''ann@example.com''),
      (''company'', JStr ''Acme''), (''industry'', JStr ''Retail''),
      (''companySize'', JStr ''11-50''), (''consultationType'', JStr ''Market Analysis''),
      (''message'', JStr ''We would like a market study.''),
      (''preferredDate'', JStr ''2024-05-01'')]"




definition contact_fields :: "(string \<times> json) list" where
  "contact_fields =
     [(''name'', JStr ''Ann Lee''), (''email'', JStr ''ann@example.com''),
      (''message'', JStr ''We would like a market study.'')]"


section \<open>Properties of the email service\<close>

lemma validateEmails_member:
  "validateEmails r \<longleftrightarrow>
     (\<forall>a \<in> set (case r of Many xs \<Rightarrow> xs | One x \<Rightarrow> [x]). validateEmail a)"
  by (simp add: validateEmails_def list_all_iff)

text \<open>
  C3. Whenever the recipients of an \<open>EmailOptions\<close> hold an address that the syntax
  pattern rejects, \<open>sendEmail\<close> returns \<open>false\<close>, its only effect is the logged
  error, and \<open>sendMail\<close> is never called, whatever the configuration, the environment
  and the other fields are.
\<close>

theorem sendEmail_invalid_recipient:
  assumes "a \<in> set (case opt_to options of Many xs \<Rightarrow> xs | One x \<Rightarrow> [x])"
    and "\<not> validateEmail a"
  shows "sendEmail l svc e options = (False, [LogError ''Email Sending Error''])
         \<and> attempts (snd (sendEmail l svc e options)) = 0"
proof -
  from assms have "\<not> validateEmails (opt_to options)"
    by (auto simp: validateEmails_member)
  then show ?thesis
    by (simp add: sendEmail_def sendEmail_try_def attempts_def)
qed

theorem sendEmail_invalid_recipient_witness:
  "sendEmail sample_libs (service_with (failing_until 0)) production_env
     (plain_options (Many [''office@carlora.com'', ''not-an-address'']))
   = (False, [LogError ''Email Sending Error''])
   \<and> attempts (snd (sendEmail sample_libs (service_with (failing_until 0)) production_env
     (plain_options (Many [''office@carlora.com'', ''not-an-address''])))) = 0"
  using sendEmail_invalid_recipient [of "''not-an-address''"
      "plain_options (Many [''office@carlora.com'', ''not-an-address''])"
      sample_libs "service_with (failing_until 0)" production_env]
  by (simp add: plain_options_def validateEmail_def attempts_def)

declare sendWithRetry.simps [simp del]

lemma sendWithRetry_success:
  "attempt svc e m k = (Inr r, evs) \<Longrightarrow> sendWithRetry svc e m k = (Inr r, evs)"
  by (subst sendWithRetry.simps) simp

lemma sendWithRetry_retry:
  "attempt svc e m k = (Inl err, evs) \<Longrightarrow> k < maxRetries \<Longrightarrow> k' = k + 1 \<Longrightarrow>
   sendWithRetry svc e m k' = (r, evs') \<Longrightarrow>
   sendWithRetry svc e m k =
     (r, evs @ [LogInfo ''Email Service''
               (''Retrying email send (attempt '' @ string_of_nat k' @ '')''),
             Delay retryDelay] @ evs')"
  by (subst sendWithRetry.simps) simp

lemma sendWithRetry_exhausted:
  "attempt svc e m k = (Inl err, evs) \<Longrightarrow> \<not> k < maxRetries \<Longrightarrow>
   sendWithRetry svc e m k = (Inl err, evs)"
  by (subst sendWithRetry.simps) simp

lemma attempt_failure:
  "transporter svc = Some tr \<Longrightarrow> tr k m = Inl err \<Longrightarrow>
   attempt svc e m k = (Inl err, [SendMail k m])"
  by (simp add: attempt_def)


lemma attempts_append: "attempts (xs @ ys) = attempts xs + attempts ys"
  by (simp add: attempts_def)

lemma delays_append: "delays (xs @ ys) = delays xs @ delays ys"
  by (induction xs rule: delays.induct) simp_all

lemma info_messages_append: "info_messages (xs @ ys) = info_messages xs @ info_messages ys"
  by (induction xs rule: info_messages.induct) simp_all

lemma string_of_nat_small:
  "string_of_nat 1 = ''1''" "string_of_nat 2 = ''2''" "string_of_nat 3 = ''3''"
  by (simp_all add: digit_of_def digit_chars_def)

declare string_of_nat.simps [simp del]

lemma retry_line:
  "''Retrying email send (attempt '' @ string_of_nat 1 @ '')'' = ''Retrying email send (attempt 1)''"
  "''Retrying email send (attempt '' @ string_of_nat 2 @ '')'' = ''Retrying email send (attempt 2)''"
  "''Retrying email send (attempt '' @ string_of_nat 3 @ '')'' = ''Retrying email send (attempt 3)''"
  unfolding string_of_nat_small by simp_all


lemma every_attempt_fails:
  assumes tr: "transporter svc = Some tr"
    and f0: "tr 0 m = Inl e0" and f1: "tr 1 m = Inl e1" and f2: "tr 2 m = Inl e2"
    and f3: "tr 3 m = Inl e3"
  shows "sendWithRetry svc e m 0 =
      (Inl e3, [SendMail 0 m, LogInfo ''Email Service'' ''Retrying email send (attempt 1)'',
                Delay 1000,
                SendMail 1 m, LogInfo ''Email Service'' ''Retrying email send (attempt 2)'',
                Delay 1000,
                SendMail 2 m, LogInfo ''Email Service'' ''Retrying email send (attempt 3)'',
                Delay 1000,
                SendMail 3 m])"
proof -
  have r3: "sendWithRetry svc e m 3 = (Inl e3, [SendMail 3 m])"
    by (rule sendWithRetry_exhausted [OF attempt_failure [OF tr f3]]) (simp add: maxRetries_def)
  have r2: "sendWithRetry svc e m 2 =
      (Inl e3, [SendMail 2 m] @
         [LogInfo ''Email Service'' (''Retrying email send (attempt '' @ string_of_nat 3 @ '')''),
          Delay retryDelay] @ [SendMail 3 m])"
    by (rule sendWithRetry_retry [OF attempt_failure [OF tr f2] _ _ r3])
       (simp_all add: maxRetries_def)
  have r1: "sendWithRetry svc e m 1 =
      (Inl e3, [SendMail 1 m] @
         [LogInfo ''Email Service'' (''Retrying email send (attempt '' @ string_of_nat 2 @ '')''),
          Delay retryDelay] @ [SendMail 2 m] @
         [LogInfo ''Email Service'' (''Retrying email send (attempt '' @ string_of_nat 3 @ '')''),
          Delay retryDelay] @ [SendMail 3 m])"
    by (rule sendWithRetry_retry [OF attempt_failure [OF tr f1] _ _ r2])
       (simp_all add: maxRetries_def)
  have r0: "sendWithRetry svc e m 0 =
      (Inl e3, [SendMail 0 m] @
         [LogInfo ''Email Service'' (''Retrying email send (attempt '' @ string_of_nat 1 @ '')''),
          Delay retryDelay] @ [SendMail 1 m] @
         [LogInfo ''Email Service'' (''Retrying email send (attempt '' @ string_of_nat 2 @ '')''),
          Delay retryDelay] @ [SendMail 2 m] @
         [LogInfo ''Email Service'' (''Retrying email send (attempt '' @ string_of_nat 3 @ '')''),
          Delay retryDelay] @ [SendMail 3 m])"
    by (rule sendWithRetry_retry [OF attempt_failure [OF tr f0] _ _ r1])
       (simp_all add: maxRetries_def)
  show ?thesis
    unfolding r0 retry_line retryDelay_def by simp
qed

lemma sendEmail_try_delegates:
  assumes "validateEmails (opt_to options)"
    and "NODE_ENV e \<noteq> Some ''development''" and "isConfigured svc"
    and "apply_template l options = Inr (h, t)" and "sanitize_content l h = Inr h'"
  shows "sendEmail_try l svc e options = sendWithRetry svc e (mailOptions svc e options h' t) 0"
  using assms by (simp add: sendEmail_try_def)



lemma attempt_uninitialized:
  "transporter svc = None \<Longrightarrow>
   attempt svc e m k = (Inl (Error ''Email transporter not initialized''), [])"
  by (simp add: attempt_def)

lemma uninitialized_transporter:
  assumes tr: "transporter svc = None"
  shows "sendWithRetry svc e m 0 =
      (Inl (Error ''Email transporter not initialized''),
       [LogInfo ''Email Service'' ''Retrying email send (attempt 1)'', Delay 1000,
        LogInfo ''Email Service'' ''Retrying email send (attempt 2)'', Delay 1000,
        LogInfo ''Email Service'' ''Retrying email send (attempt 3)'', Delay 1000])"
proof -
  let ?err = "Error ''Email transporter not initialized''"
  have r3: "sendWithRetry svc e m 3 = (Inl ?err, [])"
    by (rule sendWithRetry_exhausted [OF attempt_uninitialized [OF tr]])
       (simp add: maxRetries_def)
  have r2: "sendWithRetry svc e m 2 =
      (Inl ?err, [] @
         [LogInfo ''Email Service'' (''Retrying email send (attempt '' @ string_of_nat 3 @ '')''),
          Delay retryDelay] @ [])"
    by (rule sendWithRetry_retry [OF attempt_uninitialized [OF tr] _ _ r3])
       (simp_all add: maxRetries_def)
  have r1: "sendWithRetry svc e m 1 =
      (Inl ?err, [] @
         [LogInfo ''Email Service'' (''Retrying email send (attempt '' @ string_of_nat 2 @ '')''),
          Delay retryDelay] @ [] @
         [LogInfo ''Email Service'' (''Retrying email send (attempt '' @ string_of_nat 3 @ '')''),
          Delay retryDelay] @ [])"
    by (rule sendWithRetry_retry [OF attempt_uninitialized [OF tr] _ _ r2])
       (simp_all add: maxRetries_def)
  have r0: "sendWithRetry svc e m 0 =
      (Inl ?err, [] @
         [LogInfo ''Email Service'' (''Retrying email send (attempt '' @ string_of_nat 1 @ '')''),
          Delay retryDelay] @ [] @
         [LogInfo ''Email Service'' (''Retrying email send (attempt '' @ string_of_nat 2 @ '')''),
          Delay retryDelay] @ [] @
         [LogInfo ''Email Service'' (''Retrying email send (attempt '' @ string_of_nat 3 @ '')''),
          Delay retryDelay] @ [])"
    by (rule sendWithRetry_retry [OF attempt_uninitialized [OF tr] _ _ r1])
       (simp_all add: maxRetries_def)
  show ?thesis
    unfolding r0 retry_line retryDelay_def by simp
qed

lemma sendEmail_caught:
  "sendEmail_try l svc e options = (Inl err, evs) \<Longrightarrow>
   sendEmail l svc e options = (False, evs @ [LogError ''Email Sending Error''])"
  by (simp add: sendEmail_def)

text \<open>
  C10. \<open>sendEmail\<close> returns a boolean on every input and nothing escapes it: whatever
  the body of its \<open>try\<close> block throws is logged as an email sending error and turned
  into \<open>false\<close>. This covers each source of an exception: an invalid address, a failure
  while rendering the template, a failure of the sanitizer, a transporter that was never
  initialised (no call of \<open>sendMail\<close> is made) and a transport that fails on every
  attempt.
\<close>

theorem sendEmail_never_throws:
  fixes l svc e options
  defines "reaches_templating \<equiv>
     validateEmails (opt_to options) \<and> NODE_ENV e \<noteq> Some ''development'' \<and> isConfigured svc"
  shows "(\<forall>err. fst (sendEmail_try l svc e options) = Inl err \<longrightarrow>
            sendEmail l svc e options =
              (False, snd (sendEmail_try l svc e options) @ [LogError ''Email Sending Error'']))
    \<and> (\<not> validateEmails (opt_to options) \<longrightarrow>
          sendEmail l svc e options = (False, [LogError ''Email Sending Error'']))
    \<and> (reaches_templating \<and> isl (apply_template l options) \<longrightarrow>
          sendEmail l svc e options = (False, [LogError ''Email Sending Error'']))
    \<and> (\<forall>h t. reaches_templating \<and> apply_template l options = Inr (h, t)
              \<and> isl (sanitize_content l h) \<longrightarrow>
          sendEmail l svc e options = (False, [LogError ''Email Sending Error'']))
    \<and> (\<forall>h t h'. reaches_templating \<and> apply_template l options = Inr (h, t)
              \<and> sanitize_content l h = Inr h' \<and> transporter svc = None \<longrightarrow>
          fst (sendEmail l svc e options) = False
          \<and> attempts (snd (sendEmail l svc e options)) = 0
          \<and> error_contexts (snd (sendEmail l svc e options)) = [''Email Sending Error''])
    \<and> (\<forall>h t h' tr. reaches_templating \<and> apply_template l options = Inr (h, t)
              \<and> sanitize_content l h = Inr h' \<and> transporter svc = Some tr
              \<and> (\<forall>k \<le> maxRetries. isl (tr k (mailOptions svc e options h' t))) \<longrightarrow>
          fst (sendEmail l svc e options) = False
          \<and> error_contexts (snd (sendEmail l svc e options)) = [''Email Sending Error''])"
proof (intro conjI allI impI)
  fix err assume "fst (sendEmail_try l svc e options) = Inl err"
  then show "sendEmail l svc e options =
      (False, snd (sendEmail_try l svc e options) @ [LogError ''Email Sending Error''])"
    by (intro sendEmail_caught) (simp add: prod_eq_iff)
next
  assume "\<not> validateEmails (opt_to options)"
  then show "sendEmail l svc e options = (False, [LogError ''Email Sending Error''])"
    by (simp add: sendEmail_def sendEmail_try_def)
next
  assume "reaches_templating \<and> isl (apply_template l options)"
  then show "sendEmail l svc e options = (False, [LogError ''Email Sending Error''])"
    by (auto simp: reaches_templating_def sendEmail_def sendEmail_try_def isl_def)
next
  fix h t
  assume "reaches_templating \<and> apply_template l options = Inr (h, t)
          \<and> isl (sanitize_content l h)"
  then show "sendEmail l svc e options = (False, [LogError ''Email Sending Error''])"
    by (auto simp: reaches_templating_def sendEmail_def sendEmail_try_def isl_def)
next
  {
  fix h t h'
  assume a: "reaches_templating \<and> apply_template l options = Inr (h, t)
          \<and> sanitize_content l h = Inr h' \<and> transporter svc = None"
  then have body: "sendEmail_try l svc e options =
      sendWithRetry svc e (mailOptions svc e options h' t) 0"
    by (intro sendEmail_try_delegates [where h = h]) (simp_all add: reaches_templating_def)
  from a have tr: "transporter svc = None" by simp
  note r = sendEmail_caught [OF body [unfolded uninitialized_transporter [OF tr]]]
  show "fst (sendEmail l svc e options) = False" by (simp add: r)
  show "attempts (snd (sendEmail l svc e options)) = 0" by (simp add: r attempts_def)
  show "error_contexts (snd (sendEmail l svc e options)) = [''Email Sending Error'']"
    by (simp add: r)
  }
  fix h t h' tr
  assume a: "reaches_templating \<and> apply_template l options = Inr (h, t)
          \<and> sanitize_content l h = Inr h' \<and> transporter svc = Some tr
          \<and> (\<forall>k \<le> maxRetries. isl (tr k (mailOptions svc e options h' t)))"
  let ?m = "mailOptions svc e options h' t"
  from a have body: "sendEmail_try l svc e options = sendWithRetry svc e ?m 0"
    by (intro sendEmail_try_delegates [where h = h]) (simp_all add: reaches_templating_def)
  from a have tr: "transporter svc = Some tr" by simp
  from a have "isl (tr 0 ?m)" "isl (tr 1 ?m)" "isl (tr 2 ?m)" "isl (tr 3 ?m)"
    by (simp_all add: maxRetries_def)
  then obtain e0 e1 e2 e3 where
    f: "tr 0 ?m = Inl e0" "tr 1 ?m = Inl e1" "tr 2 ?m = Inl e2" "tr 3 ?m = Inl e3"
    by (cases "tr 0 ?m"; cases "tr 1 ?m"; cases "tr 2 ?m"; cases "tr 3 ?m") auto
  note r = sendEmail_caught [OF body [unfolded every_attempt_fails [OF tr f]]]
  show "fst (sendEmail l svc e options) = False" by (simp add: r)
  show "error_contexts (snd (sendEmail l svc e options)) = [''Email Sending Error'']"
    by (simp add: r)
qed

lemma sample_address_valid: "validateEmail ''office@carlora.com''"
  by (simp add: validateEmail_def local_char_def is_alnum_def is_alpha_def is_digit_def
      lower_chars_def upper_chars_def digit_chars_def local_specials_def label_ok_def
      label_char_def)

lemma sample_address_invalid: "\<not> validateEmail ''not-an-address''"
  by (simp add: validateEmail_def)

text \<open>
  One run for each source of an exception in C10: a malformed address, a key that the
  engine rejects, a sanitizer that throws, a missing transporter, a transport that
  always fails.
\<close>

theorem sendEmail_never_throws_witness:
  "sendEmail sample_libs (service_with always_failing) production_env
     (plain_options (One ''not-an-address'')) = (False, [LogError ''Email Sending Error''])
   \<and> sendEmail sample_libs (service_with always_failing) production_env
     ((plain_options (One ''office@carlora.com''))
        \<lparr>opt_template := Some sample_template, opt_templateData := Some [(''('', VStr ''x'')]\<rparr>)
      = (False, [LogError ''Email Sending Error''])
   \<and> sendEmail throwing_purify_libs (service_with always_failing) production_env
     (plain_options (One ''office@carlora.com'')) = (False, [LogError ''Email Sending Error''])
   \<and> fst (sendEmail sample_libs ((service_with always_failing)\<lparr>transporter := None\<rparr>)
       production_env (plain_options (One ''office@carlora.com''))) = False
   \<and> fst (sendEmail sample_libs (service_with always_failing) production_env
       (plain_options (One ''office@carlora.com''))) = False"
proof (intro conjI)
  have env: "NODE_ENV production_env \<noteq> Some ''development''"
    by (simp add: production_env_def)
  have valid: "validateEmails (opt_to (plain_options (One ''office@carlora.com'')))"
    by (simp add: plain_options_def validateEmails_def sample_address_valid)
  have tmpl: "apply_template l (plain_options (One ''office@carlora.com''))
                = Inr (Some ''<p>Hi</p>'', Some ''Hi'')" for l
    by (simp add: apply_template_def plain_options_def)
  have san: "sanitize_content sample_libs (Some ''<p>Hi</p>'') = Inr (Some ''<p>Hi</p>'')"
    by (simp add: sanitize_content_def sanitizeHtml_def sample_libs_def)
  show "sendEmail sample_libs (service_with always_failing) production_env
     (plain_options (One ''not-an-address'')) = (False, [LogError ''Email Sending Error''])"
    using sendEmail_never_throws [where options = "plain_options (One ''not-an-address'')"
        and l = sample_libs and svc = "service_with always_failing" and e = production_env]
    by (simp add: plain_options_def validateEmails_def sample_address_invalid)
  show "sendEmail sample_libs (service_with always_failing) production_env
     ((plain_options (One ''office@carlora.com''))
        \<lparr>opt_template := Some sample_template, opt_templateData := Some [(''('', VStr ''x'')]\<rparr>)
      = (False, [LogError ''Email Sending Error''])"
    using sendEmail_never_throws [where options = "(plain_options (One ''office@carlora.com''))
        \<lparr>opt_template := Some sample_template, opt_templateData := Some [(''('', VStr ''x'')]\<rparr>"
        and l = sample_libs and svc = "service_with always_failing" and e = production_env] env
    by (simp add: plain_options_def validateEmails_def sample_address_valid service_with_def
        apply_template_def render_def replace_g_def plain_key_def syntax_chars_def
        sample_libs_def strict_engine_def)
  show "sendEmail throwing_purify_libs (service_with always_failing) production_env
     (plain_options (One ''office@carlora.com'')) = (False, [LogError ''Email Sending Error''])"
    using sendEmail_never_throws [where options = "plain_options (One ''office@carlora.com'')"
        and l = throwing_purify_libs and svc = "service_with always_failing"
        and e = production_env] env valid
    by (simp add: tmpl service_with_def sanitize_content_def sanitizeHtml_def
        throwing_purify_libs_def)
  show "fst (sendEmail sample_libs ((service_with always_failing)\<lparr>transporter := None\<rparr>)
       production_env (plain_options (One ''office@carlora.com''))) = False"
    using sendEmail_never_throws [where options = "plain_options (One ''office@carlora.com'')"
        and l = sample_libs and svc = "(service_with always_failing)\<lparr>transporter := None\<rparr>"
        and e = production_env]
      env valid
    by (simp add: tmpl san service_with_def)
  show "fst (sendEmail sample_libs (service_with always_failing) production_env
       (plain_options (One ''office@carlora.com''))) = False"
    using sendEmail_never_throws [where options = "plain_options (One ''office@carlora.com'')"
        and l = sample_libs and svc = "service_with always_failing" and e = production_env]
      env valid
    by (simp add: tmpl san service_with_def always_failing_def)
qed

lemma new_service_unconfigured:
  assumes "unset (SMTP_HOST e0) \<or> unset (SMTP_USER e0) \<or> unset (SMTP_PASSWORD e0)"
  shows "fst (new_EmailService e0 createTransport) =
           \<lparr>transporter = None, defaultFrom = or_else (SMTP_FROM e0) [], isConfigured = False\<rparr>"
  using assms by (simp add: new_EmailService_def initializeTransporter_def)

text \<open>
  C4, as the code has it. When a required SMTP credential is missing, the constructor
  leaves the service unconfigured and without a transporter, and every \<open>sendEmail\<close>
  call stops before the template and the transport, in every environment, production
  included: with valid recipients it logs the would-be email and returns \<open>true\<close>; with
  an invalid recipient it logs the error and returns \<open>false\<close>.
\<close>

theorem unconfigured_service_simulates:
  assumes missing: "unset (SMTP_HOST e0) \<or> unset (SMTP_USER e0) \<or> unset (SMTP_PASSWORD e0)"
    and svc: "svc = fst (new_EmailService e0 createTransport)"
  shows "\<not> isConfigured svc \<and> transporter svc = None
    \<and> (validateEmails (opt_to options) \<longrightarrow>
          sendEmail l svc e options =
            (True, [ConsoleLog ''Email would be sent in production:'']))
    \<and> (\<not> validateEmails (opt_to options) \<longrightarrow>
          sendEmail l svc e options = (False, [LogError ''Email Sending Error'']))"
  unfolding svc new_service_unconfigured [OF missing]
  by (simp add: sendEmail_def sendEmail_try_def)


text \<open>
  C4 as stated fails: in production, with \<open>SMTP_HOST\<close> missing, \<open>sendEmail\<close> returns
  \<open>true\<close>, not a failure.
\<close>

theorem unconfigured_production_counterexample:
  "NODE_ENV host_missing_env = Some ''production''
   \<and> sendEmail sample_libs (fst (new_EmailService host_missing_env (\<lambda>e. Inr always_failing)))
        host_missing_env (plain_options (One ''office@carlora.com''))
      = (True, [ConsoleLog ''Email would be sent in production:''])"
  by (simp add: host_missing_env_def production_env_def new_EmailService_def
      initializeTransporter_def unset_def sendEmail_def sendEmail_try_def plain_options_def
      validateEmails_def sample_address_valid)

text \<open>The amended C4 on a service built without \<open>SMTP_HOST\<close>.\<close>

theorem unconfigured_service_simulates_witness:
  "\<not> isConfigured (fst (new_EmailService host_missing_env (\<lambda>e. Inr always_failing)))
   \<and> sendEmail sample_libs (fst (new_EmailService host_missing_env (\<lambda>e. Inr always_failing)))
        production_env (plain_options (Many [''office@carlora.com'', ''office@carlora.com'']))
      = (True, [ConsoleLog ''Email would be sent in production:''])
   \<and> sendEmail sample_libs (fst (new_EmailService host_missing_env (\<lambda>e. Inr always_failing)))
        production_env (plain_options (One ''not-an-address''))
      = (False, [LogError ''Email Sending Error''])"
proof -
  have missing: "unset (SMTP_HOST host_missing_env) \<or> unset (SMTP_USER host_missing_env)
      \<or> unset (SMTP_PASSWORD host_missing_env)"
    by (simp add: host_missing_env_def unset_def)
  show ?thesis
    using unconfigured_service_simulates [OF missing refl,
        where options = "plain_options (Many [''office@carlora.com'', ''office@carlora.com''])"
        and createTransport = "\<lambda>e. Inr always_failing" and l = sample_libs
        and e = production_env]
      unconfigured_service_simulates [OF missing refl,
        where options = "plain_options (One ''not-an-address'')"
        and createTransport = "\<lambda>e. Inr always_failing" and l = sample_libs
        and e = production_env]
    by (simp add: plain_options_def validateEmails_def sample_address_valid
        sample_address_invalid)
qed

section \<open>Properties of the schemas and the route handlers\<close>

lemma both_Inr: "both a b = Inr p \<longleftrightarrow> (\<exists>x y. a = Inr x \<and> b = Inr y \<and> p = (x, y))"
  by (auto simp: both_def split: sum.splits)

lemma both_Inl_right:
  "\<exists>j. b = Inl j \<and> x \<in> set j \<Longrightarrow> \<exists>i. both a b = Inl i \<and> x \<in> set i"
  by (auto simp: both_def split: sum.splits)

lemma z_transform_Inr: "z_transform f r = Inr y \<longleftrightarrow> (\<exists>x. r = Inr x \<and> y = f x)"
  by (auto simp: z_transform_def split: sum.splits)

lemma z_transform_Inl:
  "\<exists>j. r = Inl j \<and> x \<in> set j \<Longrightarrow> \<exists>i. z_transform f r = Inl i \<and> x \<in> set i"
  by (auto simp: z_transform_def)

lemma z_string_on_string:
  "z_string field checks (Some (JStr s)) =
     (if list_all (\<lambda>(ok, msg). ok s) checks then Inr s
      else Inl (map (\<lambda>(ok, msg). (field, msg)) (filter (\<lambda>(ok, msg). \<not> ok s) checks)))"
proof (cases "filter (\<lambda>(ok, msg). \<not> ok s) checks")
  case Nil
  then have "list_all (\<lambda>(ok, msg). ok s) checks"
    by (auto simp: filter_empty_conv list_all_iff)
  with Nil show ?thesis by (simp add: z_string_def)
next
  case (Cons c cs)
  then have "c \<in> set (filter (\<lambda>(ok, msg). \<not> ok s) checks)" by simp
  then have "\<not> list_all (\<lambda>(ok, msg). ok s) checks"
    by (auto simp: list_all_iff)
  with Cons show ?thesis by (simp add: z_string_def)
qed

lemma z_string_Inr:
  "z_string field checks v = Inr s' \<longleftrightarrow>
     v = Some (JStr s') \<and> list_all (\<lambda>(ok, msg). ok s') checks"
proof (cases v)
  case None
  then show ?thesis by (simp add: z_string_def)
next
  case (Some j)
  then show ?thesis
    by (cases j) (auto simp: z_string_on_string, simp_all add: z_string_def)
qed

lemma z_optional_Inr:
  "z_optional field checks v = Inr h \<longleftrightarrow>
     (v = None \<and> h = None) \<or>
     (\<exists>s. v = Some (JStr s) \<and> h = Some s \<and> list_all (\<lambda>(ok, msg). ok s) checks)"
proof (cases v)
  case None
  then show ?thesis by (auto simp: z_optional_def)
next
  case (Some j)
  show ?thesis
  proof (cases "z_string field checks v")
    case (Inl i)
    with Some show ?thesis
      using z_string_Inr [of field checks v] by (auto simp: z_optional_def)
  next
    case (Inr s)
    with Some show ?thesis
      using z_string_Inr [of field checks v s] by (auto simp: z_optional_def)
  qed
qed

lemma honeypot_passes:
  "z_optional ''honeypot'' [(max_length 0, ZodDefault)] v = Inr h \<Longrightarrow> h = None \<or> h = Some []"
  by (auto simp: z_optional_Inr max_length_def)

lemma honeypot_fails:
  "v = Some (JStr h) \<Longrightarrow> h \<noteq> [] \<Longrightarrow>
   \<exists>j. z_optional ''honeypot'' [(max_length 0, ZodDefault)] v = Inl j
       \<and> (''honeypot'', ZodDefault) \<in> set j"
  by (simp add: z_optional_def z_string_def max_length_def)

lemma consultation_honeypot:
  "consultationSchema z data = Inr v \<Longrightarrow> c_honeypot v = None \<or> c_honeypot v = Some []"
  by (cases data)
     (auto simp: consultationSchema_def z_object_def z_transform_Inr both_Inr
       dest!: honeypot_passes)

lemma contact_honeypot:
  "contactSchema z data = Inr v \<Longrightarrow> k_honeypot v = None \<or> k_honeypot v = Some []"
  by (cases data)
     (auto simp: contactSchema_def z_object_def z_transform_Inr both_Inr
       dest!: honeypot_passes)

lemma application_honeypot:
  "applicationSchema z data = Inr v \<Longrightarrow> a_honeypot v = None \<or> a_honeypot v = Some []"
  by (cases data)
     (auto simp: applicationSchema_def z_object_def z_transform_Inr both_Inr
       dest!: honeypot_passes)

lemma consultation_trap:
  assumes "d ''honeypot'' = Some (JStr h)" and "h \<noteq> []"
  shows "\<exists>errs. consultationSchema z (Object d) = Inl errs
           \<and> (''honeypot'', ZodDefault) \<in> set errs"
  unfolding consultationSchema_def z_object_def jsondata.case
  by (intro z_transform_Inl both_Inl_right honeypot_fails [OF assms])

lemma contact_trap:
  assumes "d ''honeypot'' = Some (JStr h)" and "h \<noteq> []"
  shows "\<exists>errs. contactSchema z (Object d) = Inl errs
           \<and> (''honeypot'', ZodDefault) \<in> set errs"
  unfolding contactSchema_def z_object_def jsondata.case
  by (intro z_transform_Inl both_Inl_right honeypot_fails [OF assms])

lemma application_trap:
  assumes "d ''honeypot'' = Some (JStr h)" and "h \<noteq> []"
  shows "\<exists>errs. applicationSchema z (Object d) = Inl errs
           \<and> (''honeypot'', ZodDefault) \<in> set errs"
  unfolding applicationSchema_def z_object_def jsondata.case
  by (intro z_transform_Inl both_Inl_right honeypot_fails [OF assms])

lemmas char_class_defs =
  is_alnum_def is_alpha_def is_digit_def lower_chars_def upper_chars_def digit_chars_def
  local_char_def local_specials_def label_ok_def label_char_def is_space_def
  letters_only_def trim_def toLowerCase_def lower_char_def latin1_upper_def latin1_lower_def

lemmas schema_defs =
  z_object_def z_transform_def both_def z_string_def z_optional_def z_enum_def
  min_length_def max_length_def

lemmas response_defs =
  too_many_requests_def validation_failed_def submission_rejected_def
  technical_difficulties_def

text \<open>
  C6. When the rate limiter rejects a request, each of the three handlers answers 429
  with the fixed message and does nothing else: the only event is the rate-limit line
  of the log, so the body is neither parsed nor validated and no email is sent. An
  invalid payload sent while rate-limited therefore gets 429, not 400.
\<close>

theorem rate_limit_short_circuits:
  assumes "rateLimit d req = Inr False"
  shows "POST_consultation d req = (too_many_requests, [LogError ''Rate Limit Exceeded''])
       \<and> POST_contact d req = (too_many_requests, [LogError ''Rate Limit Exceeded''])
       \<and> POST_application d req = (too_many_requests, [LogError ''Rate Limit Exceeded''])
       \<and> status too_many_requests = 429"
  using assms
  by (simp add: POST_consultation_def POST_contact_def POST_application_def
      too_many_requests_def)

lemma empty_payload_invalid:
  "isl (consultationSchema z (payload_of []))"
  "isl (contactSchema z (payload_of []))"
  "isl (applicationSchema z (payload_of []))"
  by (simp_all add: consultationSchema_def contactSchema_def applicationSchema_def schema_defs
      payload_of_def)

text \<open>C6 on an empty payload, which every schema rejects, sent while rate-limited.\<close>

theorem rate_limit_short_circuits_witness:
  "isl (consultationSchema sample_zod (payload_of []))
   \<and> body (request_of []) = Some (payload_of [])
   \<and> status (fst (POST_consultation (sample_deps False) (request_of []))) = 429
   \<and> status (fst (POST_contact (sample_deps False) (request_of []))) = 429
   \<and> status (fst (POST_application (sample_deps False) (request_of []))) = 429
   \<and> attempts (snd (POST_consultation (sample_deps False) (request_of []))) = 0"
  using rate_limit_short_circuits [of "sample_deps False" "request_of []"]
  by (simp add: sample_deps_def empty_payload_invalid request_of_def attempts_def)

lemma consultation_fields_with_trap:
  "consultationSchema sample_zod (payload_of ((''honeypot'', JStr ''bot'') # consultation_fields))
   = Inl [(''honeypot'', ZodDefault)]"
  by (simp add: consultationSchema_def consultation_fields_def schema_defs sample_zod_def
      validateEmail_def char_class_defs payload_of_def)

lemma contact_fields_with_trap:
  "contactSchema sample_zod (payload_of ((''honeypot'', JStr ''bot'') # contact_fields))
   = Inl [(''honeypot'', ZodDefault)]"
  by (simp add: contactSchema_def contact_fields_def schema_defs sample_zod_def
      validateEmail_def char_class_defs payload_of_def)

text \<open>
  C1 on requests that the rate limiter admits, whose fields are all valid and whose
  honeypot is \<open>bot\<close>. The handlers' honeypot branch, which logs the triggered honeypot
  and answers with the generic rejection, is not the one that answers: the schema has
  already turned the payload down, so the answer carries the validation message with
  a field-level detail for \<open>honeypot\<close>, and the log holds the validation line only.
\<close>

theorem honeypot_answered_by_validation:
  "POST_consultation (sample_deps True)
       (request_of ((''honeypot'', JStr ''bot'') # consultation_fields))
     = (\<lparr>status = 400,
         json_body = ErrorDetails ''Please check your input and try again''
                       [(''honeypot'', ZodDefault)]\<rparr>,
        [LogError ''Consultation Booking Validation Failed''])
   \<and> fst (POST_consultation (sample_deps True)
         (request_of ((''honeypot'', JStr ''bot'') # consultation_fields)))
     \<noteq> \<lparr>status = 400, json_body = ErrorBody ''Form submission rejected''\<rparr>
   \<and> POST_contact (sample_deps True)
       (request_of ((''honeypot'', JStr ''bot'') # contact_fields))
     = (\<lparr>status = 400,
         json_body = ErrorDetails ''Please check your input and try again''
                       [(''honeypot'', ZodDefault)]\<rparr>,
        [LogError ''Form Validation Failed''])
   \<and> fst (POST_contact (sample_deps True)
         (request_of ((''honeypot'', JStr ''bot'') # contact_fields)))
     \<noteq> \<lparr>status = 400, json_body = ErrorBody ''Form submission rejected''\<rparr>"
  by (simp add: POST_consultation_def POST_contact_def sample_deps_def request_of_def
      consultation_fields_with_trap contact_fields_with_trap response_defs)

lemma error_contexts_append:
  "error_contexts (xs @ ys) = error_contexts xs @ error_contexts ys"
  by (induction xs rule: error_contexts.induct) simp_all

lemma attempt_error_contexts: "error_contexts (snd (attempt svc e m k)) = []"
  by (simp add: attempt_def split: option.splits sum.splits)

lemma sendWithRetry_error_contexts:
  "error_contexts (snd (sendWithRetry svc e m k)) = []"
proof (induction svc e m k rule: sendWithRetry.induct)
  case (1 svc e m retries)
  obtain r evs where a: "attempt svc e m retries = (r, evs)"
    by (cases "attempt svc e m retries")
  have evs: "error_contexts evs = []"
    using attempt_error_contexts [of svc e m retries] by (simp add: a)
  show ?case
  proof (cases r)
    case (Inr ok)
    with a evs show ?thesis by (simp add: sendWithRetry_success)
  next
    case (Inl err)
    show ?thesis
    proof (cases "retries < maxRetries")
      case False
      with a Inl evs show ?thesis by (simp add: sendWithRetry_exhausted)
    next
      case True
      obtain r' evs' where n: "sendWithRetry svc e m (retries + 1) = (r', evs')"
        by (cases "sendWithRetry svc e m (retries + 1)")
      have "error_contexts evs' = []"
        using "1.IH" [OF a [symmetric] Inl True] n by simp
      with evs show ?thesis
        by (simp add: sendWithRetry_retry [OF a [unfolded Inl] True refl n]
            error_contexts_append)
    qed
  qed
qed

lemma sendEmail_error_contexts:
  "set (error_contexts (snd (sendEmail l svc e options))) \<subseteq> {''Email Sending Error''}"
proof -
  have "error_contexts (snd (sendEmail_try l svc e options)) = []"
    by (simp add: sendEmail_try_def sendWithRetry_error_contexts
        split: sum.splits prod.splits)
  then show ?thesis
    by (cases "sendEmail_try l svc e options")
       (auto simp: sendEmail_def error_contexts_append split: sum.splits)
qed

lemma not_rejected_response:
  "validation_failed errs \<noteq> submission_rejected"
  "technical_difficulties \<noteq> submission_rejected"
  "too_many_requests \<noteq> submission_rejected"
  "\<lparr>status = 200, json_body = b\<rparr> \<noteq> submission_rejected"
  by (simp_all add: response_defs)

lemma consultation_never_bot_branch:
  "fst (POST_consultation d req) \<noteq> submission_rejected
   \<and> ''Honeypot Triggered'' \<notin> set (error_contexts (snd (POST_consultation d req)))"
proof -
  have h: "\<not> truthy (c_honeypot v)" if "consultationSchema (dep_zod d) data = Inr v" for data v
    using consultation_honeypot [OF that] by (auto simp: truthy_def unset_def)
  have m: "''Honeypot Triggered'' \<notin> set (error_contexts evs)"
    if "sendEmail l svc e options = (b, evs)" for l svc e options b evs
    using sendEmail_error_contexts [of l svc e options] that by auto
  show ?thesis
    by (auto dest: m simp: POST_consultation_def not_rejected_response h error_contexts_append
        split: sum.splits option.splits prod.splits)
qed

lemma contact_never_bot_branch:
  "fst (POST_contact d req) \<noteq> submission_rejected
   \<and> ''Honeypot Triggered'' \<notin> set (error_contexts (snd (POST_contact d req)))"
proof -
  have h: "\<not> truthy (k_honeypot v)" if "contactSchema (dep_zod d) data = Inr v" for data v
    using contact_honeypot [OF that] by (auto simp: truthy_def unset_def)
  have m: "''Honeypot Triggered'' \<notin> set (error_contexts evs)"
    if "sendEmail l svc e options = (b, evs)" for l svc e options b evs
    using sendEmail_error_contexts [of l svc e options] that by auto
  show ?thesis
    by (auto dest: m simp: POST_contact_def not_rejected_response h error_contexts_append
        split: sum.splits option.splits prod.splits)
qed

lemma application_never_bot_branch:
  "fst (POST_application d req) \<noteq> submission_rejected
   \<and> ''Honeypot Triggered'' \<notin> set (error_contexts (snd (POST_application d req)))"
proof -
  have h: "\<not> truthy (a_honeypot v)" if "applicationSchema (dep_zod d) data = Inr v" for data v
    using application_honeypot [OF that] by (auto simp: truthy_def unset_def)
  have m: "''Honeypot Triggered'' \<notin> set (error_contexts evs)"
    if "sendEmail l svc e options = (b, evs)" for l svc e options b evs
    using sendEmail_error_contexts [of l svc e options] that by auto
  show ?thesis
    by (auto dest: m simp: POST_application_def not_rejected_response h error_contexts_append
        split: sum.splits option.splits prod.splits)
qed

lemma consultation_trapped:
  assumes "body req = Some (Object fs)" and "fs ''honeypot'' = Some (JStr h)" and "h \<noteq> []"
  shows "\<exists>errs. (''honeypot'', ZodDefault) \<in> set errs \<and>
     POST_consultation d req =
       (case rateLimit d req of
          Inl err \<Rightarrow> (technical_difficulties, [LogError ''Consultation Booking Error''])
        | Inr admitted \<Rightarrow>
            if admitted
            then (validation_failed errs, [LogError ''Consultation Booking Validation Failed''])
            else (too_many_requests, [LogError ''Rate Limit Exceeded'']))"
proof -
  obtain errs where "consultationSchema (dep_zod d) (Object fs) = Inl errs"
    and "(''honeypot'', ZodDefault) \<in> set errs"
    using consultation_trap [where d = fs, OF assms(2,3)] by blast
  then show ?thesis
    using assms(1) by (auto simp: POST_consultation_def split: sum.splits)
qed

lemma contact_trapped:
  assumes "body req = Some (Object fs)" and "fs ''honeypot'' = Some (JStr h)" and "h \<noteq> []"
  shows "\<exists>errs. (''honeypot'', ZodDefault) \<in> set errs \<and>
     POST_contact d req =
       (case rateLimit d req of
          Inl err \<Rightarrow> (technical_difficulties, [LogError ''Contact Form Error''])
        | Inr admitted \<Rightarrow>
            if admitted
            then (validation_failed errs, [LogError ''Form Validation Failed''])
            else (too_many_requests, [LogError ''Rate Limit Exceeded'']))"
proof -
  obtain errs where "contactSchema (dep_zod d) (Object fs) = Inl errs"
    and "(''honeypot'', ZodDefault) \<in> set errs"
    using contact_trap [where d = fs, OF assms(2,3)] by blast
  then show ?thesis
    using assms(1) by (auto simp: POST_contact_def split: sum.splits)
qed

lemma application_trapped:
  assumes "body req = Some (Object fs)" and "fs ''honeypot'' = Some (JStr h)" and "h \<noteq> []"
  shows "\<exists>errs. (''honeypot'', ZodDefault) \<in> set errs \<and>
     POST_application d req =
       (case rateLimit d req of
          Inl err \<Rightarrow> (technical_difficulties, [LogError ''Application Form Error''])
        | Inr admitted \<Rightarrow>
            if admitted
            then (validation_failed errs, [LogError ''Application Form Validation Failed''])
            else (too_many_requests, [LogError ''Rate Limit Exceeded'']))"
proof -
  obtain errs where "applicationSchema (dep_zod d) (Object fs) = Inl errs"
    and "(''honeypot'', ZodDefault) \<in> set errs"
    using application_trap [where d = fs, OF assms(2,3)] by blast
  then show ?thesis
    using assms(1) by (auto simp: POST_application_def split: sum.splits)
qed

text \<open>
  C9. A payload that passes a schema has an absent or empty honeypot, so no handler
  ever takes its post-validation honeypot branch: the bot-rejection response is never
  produced and the honeypot line is never logged. A non-empty honeypot that reaches
  validation is rejected there, with field-level details that name it.
\<close>

theorem honeypot_branch_unreachable:
  "(consultationSchema z data = Inr v1 \<longrightarrow> c_honeypot v1 = None \<or> c_honeypot v1 = Some [])
 \<and> (contactSchema z data = Inr v2 \<longrightarrow> k_honeypot v2 = None \<or> k_honeypot v2 = Some [])
 \<and> (applicationSchema z data = Inr v3 \<longrightarrow> a_honeypot v3 = None \<or> a_honeypot v3 = Some [])
 \<and> (\<forall>r \<in> {POST_consultation d req, POST_contact d req, POST_application d req}.
        fst r \<noteq> \<lparr>status = 400, json_body = ErrorBody ''Form submission rejected''\<rparr>
      \<and> ''Honeypot Triggered'' \<notin> set (error_contexts (snd r)))
 \<and> (rateLimit d req = Inr True \<and> body req = Some (Object fs)
      \<and> fs ''honeypot'' = Some (JStr h) \<and> h \<noteq> [] \<longrightarrow>
      (\<forall>r \<in> {POST_consultation d req, POST_contact d req, POST_application d req}.
         \<exists>details. fst r = \<lparr>status = 400,
              json_body = ErrorDetails ''Please check your input and try again'' details\<rparr>
           \<and> (''honeypot'', ZodDefault) \<in> set details))"
proof (intro conjI impI)
  show "c_honeypot v1 = None \<or> c_honeypot v1 = Some []" if "consultationSchema z data = Inr v1"
    using that by (rule consultation_honeypot)
  show "k_honeypot v2 = None \<or> k_honeypot v2 = Some []" if "contactSchema z data = Inr v2"
    using that by (rule contact_honeypot)
  show "a_honeypot v3 = None \<or> a_honeypot v3 = Some []" if "applicationSchema z data = Inr v3"
    using that by (rule application_honeypot)
  show "\<forall>r \<in> {POST_consultation d req, POST_contact d req, POST_application d req}.
        fst r \<noteq> \<lparr>status = 400, json_body = ErrorBody ''Form submission rejected''\<rparr>
      \<and> ''Honeypot Triggered'' \<notin> set (error_contexts (snd r))"
    using consultation_never_bot_branch [of d req] contact_never_bot_branch [of d req]
      application_never_bot_branch [of d req]
    by (simp add: submission_rejected_def)
  show "\<forall>r \<in> {POST_consultation d req, POST_contact d req, POST_application d req}.
         \<exists>details. fst r = \<lparr>status = 400,
              json_body = ErrorDetails ''Please check your input and try again'' details\<rparr>
           \<and> (''honeypot'', ZodDefault) \<in> set details"
    if a: "rateLimit d req = Inr True \<and> body req = Some (Object fs)
      \<and> fs ''honeypot'' = Some (JStr h) \<and> h \<noteq> []"
  proof -
    from a have b: "body req = Some (Object fs)" and f: "fs ''honeypot'' = Some (JStr h)"
      and h: "h \<noteq> []" and l: "rateLimit d req = Inr True"
      by simp_all
    show ?thesis
      using consultation_trapped [OF b f h, of d] contact_trapped [OF b f h, of d]
        application_trapped [OF b f h, of d]
      by (auto simp: l validation_failed_def)
  qed
qed

lemma consultation_fields_valid:
  "consultationSchema sample_zod (payload_of consultation_fields)
   = Inr \<lparr>c_name = ''Ann Lee'', c_email = ''ann@example.com'', c_company = ''Acme'',
          c_industry = ''Retail'', c_companySize = ''11-50'',
          c_consultationType = ''Market Analysis'',
          c_message = ''We would like a market study.'', c_preferredDate = ''2024-05-01'',
          c_honeypot = None\<rparr>"
  by (simp add: consultationSchema_def consultation_fields_def schema_defs sample_zod_def
      validateEmail_def char_class_defs payload_of_def)

text \<open>C9 on a valid consultation payload and on a trapped contact request.\<close>

theorem honeypot_branch_unreachable_witness:
  "(\<exists>v. consultationSchema sample_zod (payload_of consultation_fields) = Inr v
        \<and> c_honeypot v = None)
   \<and> fst (POST_contact (sample_deps True)
            (request_of ((''honeypot'', JStr ''bot'') # contact_fields)))
       \<noteq> \<lparr>status = 400, json_body = ErrorBody ''Form submission rejected''\<rparr>
   \<and> (\<exists>details. fst (POST_contact (sample_deps True)
            (request_of ((''honeypot'', JStr ''bot'') # contact_fields)))
        = \<lparr>status = 400,
           json_body = ErrorDetails ''Please check your input and try again'' details\<rparr>
        \<and> (''honeypot'', ZodDefault) \<in> set details)"
proof -
  have b: "body (request_of fs) = Some (Object (map_of fs))" for fs
    by (simp add: request_of_def payload_of_def)
  have l: "rateLimit (sample_deps True) req = Inr True" for req
    by (simp add: sample_deps_def)
  show ?thesis
    using honeypot_branch_unreachable [where z = sample_zod
        and data = "payload_of consultation_fields"
        and d = "sample_deps True"
        and req = "request_of ((''honeypot'', JStr ''bot'') # contact_fields)"
        and fs = "map_of ((''honeypot'', JStr ''bot'') # contact_fields)" and h = "''bot''"]
    by (simp add: consultation_fields_valid b l)
qed






text \<open>
  C5 on a message a visitor can submit. \<open>replace\<close> reads the replacement text as a
  pattern, so the value does not arrive as written: \<open>$$\<close> comes out as one dollar sign
  and \<open>$&\<close> as the placeholder itself.
\<close>

theorem render_rewrites_dollar_sequences:
  "render strict_engine \<lparr>htmlTemplate = ''<p>{{message}}</p>'', textTemplate = ''{{message}}''\<rparr>
      [(''message'', VStr ''It costs $$20 in total'')]
     = Inr \<lparr>html = ''<p>It costs $20 in total</p>'', text_body = ''It costs $20 in total''\<rparr>
   \<and> render strict_engine \<lparr>htmlTemplate = ''<p>{{message}}</p>'', textTemplate = ''{{message}}''\<rparr>
      [(''message'', VStr ''Please read $& twice'')]
     = Inr \<lparr>html = ''<p>Please read {{message}} twice</p>'',
            text_body = ''Please read {{message}} twice''\<rparr>"
  by (simp add: render_def replace_g_def plain_key_def syntax_chars_def quantifier_body_def
      is_digit_def digit_chars_def placeholder_def)

end
